theory Spec2Isabelle
  imports Complex_Main
begin

section \<open>The data-access layer of the fake store (src/db/index.js)\<close>

text \<open>
  The module owns one better-sqlite3 connection and exports the repository operations
  on three tables. The embedding keeps the connection and the tables in a record that
  every operation takes and returns. An \<^verbatim>\<open>async\<close> function is a function whose
  result is \<open>Inr v\<close> when its promise resolves with \<open>v\<close> and \<open>Inl e\<close> when it rejects
  with the exception \<open>e\<close>; \<^verbatim>\<open>try { await p } catch (e) { ... }\<close> is a case
  distinction on that sum. Console output is not part of the state.

  Types of the values that cross the interface: ids and the two order flags are
  integers, names, emails and passwords are strings, and a line item is an object with
  a numeric \<^verbatim>\<open>price\<close> and \<^verbatim>\<open>quantity\<close> and any further properties (the extension of
  the record \<open>item\<close>). The \<^verbatim>\<open>items\<close> property of an argument object may be missing:
  \<open>None\<close> is JavaScript's \<^verbatim>\<open>undefined\<close>. JavaScript numbers are IEEE binary64
  values: \<^verbatim>\<open>*\<close> and \<^verbatim>\<open>+\<close> round their exact result to the nearest double, a tie
  going to the even one, and overflow to an infinity.
\<close>

subsection \<open>Values\<close>

record item =
  price :: real
  quantity :: real

text \<open>
  \<^verbatim>\<open>JSON.stringify\<close> and \<^verbatim>\<open>JSON.parse\<close> are built-ins of the language. The text
  they exchange is kept abstract: \<open>JSON_text v\<close> is the text that encodes the array
  \<open>v\<close>. \<^verbatim>\<open>JSON.stringify(undefined)\<close> is \<^verbatim>\<open>undefined\<close>.
\<close>

datatype 'm json_text = JSON_text "'m item_scheme list"

definition JSON_stringify :: "'m item_scheme list option \<Rightarrow> 'm json_text option" where
  "JSON_stringify v = map_option JSON_text v"

fun JSON_parse :: "'m json_text \<Rightarrow> 'm item_scheme list" where
  "JSON_parse (JSON_text v) = v"

subsection \<open>Numbers\<close>

text \<open>
  A number is a finite double, given by its value, an infinity or NaN. The two zeros
  are one value: no operation of this module tells them apart.
\<close>

datatype number = Num real | PosInfinity | NegInfinity | NaN

text \<open>
  Rounding a real to binary64. The magnitude is scaled by powers of two until it lies
  between \<open>2^52\<close> and \<open>2^53\<close>, or until the exponent reaches that of the subnormal
  numbers; it is then rounded to the nearest integer, a tie going to the even one, and
  scaled back. A result of \<open>2^1024\<close> or more is an infinity.
\<close>

function scale_down :: "real \<Rightarrow> int \<Rightarrow> real \<times> int" where
  "scale_down x e =
     (if 9007199254740992 \<le> x \<and> e < 972 then scale_down (x / 2) (e + 1) else (x, e))"
  by pat_completeness auto
termination
  by (relation "measure (\<lambda>(x, e). nat (972 - e))") auto

function scale_up :: "real \<Rightarrow> int \<Rightarrow> real \<times> int" where
  "scale_up x e =
     (if x < 4503599627370496 \<and> - 1074 < e then scale_up (2 * x) (e - 1) else (x, e))"
  by pat_completeness auto
termination
  by (relation "measure (\<lambda>(x, e). nat (e + 1074))") auto

declare scale_down.simps [simp del] scale_up.simps [simp del]

definition round_even :: "real \<Rightarrow> int" where
  "round_even m =
     (let f = \<lfloor>m\<rfloor>; d = m - of_int f
      in if d < 1 / 2 then f else if 1 / 2 < d then f + 1 else if even f then f else f + 1)"

definition binary64 :: "real \<Rightarrow> number" where
  "binary64 x =
     (if x = 0 then Num 0
      else
        (case scale_down \<bar>x\<bar> 0 of
           (x1, e1) \<Rightarrow>
             (case scale_up x1 e1 of
                (m, e) \<Rightarrow>
                  (let n = round_even m;
                       y = (if 0 \<le> e then of_int n * 2 ^ nat e else of_int n / 2 ^ nat (- e))
                   in if 2 ^ 1024 \<le> y then (if 0 < x then PosInfinity else NegInfinity)
                      else Num (if 0 < x then y else - y)))))"

text \<open>The operators \<^verbatim>\<open>+\<close> and \<^verbatim>\<open>*\<close> on numbers.\<close>

fun js_add :: "number \<Rightarrow> number \<Rightarrow> number" where
  "js_add (Num a) (Num b) = binary64 (a + b)"
| "js_add NaN y = NaN"
| "js_add x NaN = NaN"
| "js_add PosInfinity NegInfinity = NaN"
| "js_add NegInfinity PosInfinity = NaN"
| "js_add PosInfinity y = PosInfinity"
| "js_add NegInfinity y = NegInfinity"
| "js_add x PosInfinity = PosInfinity"
| "js_add x NegInfinity = NegInfinity"

fun js_mul :: "number \<Rightarrow> number \<Rightarrow> number" where
  "js_mul (Num a) (Num b) = binary64 (a * b)"
| "js_mul NaN y = NaN"
| "js_mul x NaN = NaN"
| "js_mul PosInfinity (Num b) =
     (if b = 0 then NaN else if 0 < b then PosInfinity else NegInfinity)"
| "js_mul NegInfinity (Num b) =
     (if b = 0 then NaN else if 0 < b then NegInfinity else PosInfinity)"
| "js_mul (Num a) PosInfinity =
     (if a = 0 then NaN else if 0 < a then PosInfinity else NegInfinity)"
| "js_mul (Num a) NegInfinity =
     (if a = 0 then NaN else if 0 < a then NegInfinity else PosInfinity)"
| "js_mul PosInfinity PosInfinity = PosInfinity"
| "js_mul NegInfinity NegInfinity = PosInfinity"
| "js_mul PosInfinity NegInfinity = NegInfinity"
| "js_mul NegInfinity PosInfinity = NegInfinity"

text \<open>\<^verbatim>\<open>Math.round\<close>: the nearest integer, a tie going up; an infinity and NaN are
  returned as they are.\<close>

fun Math_round :: "number \<Rightarrow> number" where
  "Math_round (Num x) = Num (of_int \<lfloor>x + 1 / 2\<rfloor>)"
| "Math_round x = x"

datatype js_error = TypeError string | SqliteError string

fun message :: "js_error \<Rightarrow> string" where
  "message (TypeError m) = m"
| "message (SqliteError m) = m"

subsection \<open>The database\<close>

record user_row =
  u_id :: int
  u_name :: string
  u_email :: string
  u_password :: string

record 'm order_row =
  o_id :: int
  o_uid :: int
  item_numbers :: number
  is_paid :: int
  is_delivered :: int
  total_price :: number
  order_items :: "'m json_text"

record 'm cart_row =
  c_rowid :: int
  c_uid :: int
  cart_items :: "'m json_text"

text \<open>
  The tables hold their rows in scan order. \<open>users_seq\<close> and \<open>orders_seq\<close> are the
  AUTOINCREMENT counters of the two tables (the largest id ever given out), and
  \<open>last_rowid\<close> is the connection's last insert rowid, which \<^verbatim>\<open>info.lastInsertRowid\<close>
  reports after every statement.
\<close>

record 'm db =
  conn_open :: bool
  users :: "user_row list"
  users_seq :: int
  orders :: "'m order_row list"
  orders_seq :: int
  cart :: "'m cart_row list"
  last_rowid :: int

text \<open>The connection on a new file, after the three CREATE TABLE IF NOT EXISTS.\<close>

definition createDataBase :: "'m db" where
  "createDataBase =
     \<lparr>conn_open = True, users = [], users_seq = 0, orders = [], orders_seq = 0,
      cart = [], last_rowid = 0\<rparr>"

definition dbClose :: "'m db \<Rightarrow> 'm db" where
  "dbClose s = s\<lparr>conn_open := False\<rparr>"

record run_info =
  lastID :: int
  changes :: int

definition not_open :: js_error where
  "not_open = TypeError ''The database connection is not open''"

text \<open>
  The three executors. A statement is a function on the database; \<^verbatim>\<open>db.prepare\<close>
  throws on a closed connection, and whatever the statement throws rejects the promise.
\<close>

definition dbRun ::
  "('m db \<Rightarrow> js_error + int \<times> 'm db) \<Rightarrow> 'm db \<Rightarrow> (js_error + run_info) \<times> 'm db" where
  "dbRun stmt s =
     (if conn_open s then
        (case stmt s of
           Inl err \<Rightarrow> (Inl err, s)
         | Inr (n, s') \<Rightarrow> (Inr \<lparr>lastID = last_rowid s', changes = n\<rparr>, s'))
      else (Inl not_open, s))"

definition dbAll :: "('m db \<Rightarrow> 'r list) \<Rightarrow> 'm db \<Rightarrow> js_error + 'r list" where
  "dbAll query s = (if conn_open s then Inr (query s) else Inl not_open)"

definition dbGet :: "('m db \<Rightarrow> 'r option) \<Rightarrow> 'm db \<Rightarrow> js_error + 'r option" where
  "dbGet query s = (if conn_open s then Inr (query s) else Inl not_open)"

subsection \<open>The statements\<close>

definition next_rowid :: "int \<Rightarrow> int list \<Rightarrow> int" where
  "next_rowid seq ids = fold max ids seq + 1"

text \<open>\<^verbatim>\<open>SELECT * FROM users WHERE email = $email\<close>\<close>

definition select_user_by_email :: "string \<Rightarrow> 'm db \<Rightarrow> user_row option" where
  "select_user_by_email e s = find (\<lambda>u. u_email u = e) (users s)"

text \<open>\<^verbatim>\<open>INSERT INTO users (name,email,password) VALUES (?,?,?)\<close>, email UNIQUE\<close>

definition insert_user :: "string \<Rightarrow> string \<Rightarrow> string \<Rightarrow> 'm db \<Rightarrow> js_error + int \<times> 'm db" where
  "insert_user n e p s =
     (if e \<in> set (map u_email (users s))
      then Inl (SqliteError ''UNIQUE constraint failed: users.email'')
      else
        (let i = next_rowid (users_seq s) (map u_id (users s))
         in Inr (1, s\<lparr>users := users s @ [\<lparr>u_id = i, u_name = n, u_email = e, u_password = p\<rparr>],
                      users_seq := i, last_rowid := i\<rparr>)))"

text \<open>\<^verbatim>\<open>SELECT * FROM users WHERE email=$email AND password=$password\<close>\<close>

definition select_user_by_login :: "string \<Rightarrow> string \<Rightarrow> 'm db \<Rightarrow> user_row option" where
  "select_user_by_login e p s = find (\<lambda>u. u_email u = e \<and> u_password u = p) (users s)"

text \<open>\<^verbatim>\<open>UPDATE users SET name=$name, password=$password WHERE id=$id\<close>\<close>

definition update_user :: "string \<Rightarrow> string \<Rightarrow> int \<Rightarrow> 'm db \<Rightarrow> js_error + int \<times> 'm db" where
  "update_user n p i s =
     Inr (int (length (filter (\<lambda>u. u_id u = i) (users s))),
          s\<lparr>users := map (\<lambda>u. if u_id u = i then u\<lparr>u_name := n, u_password := p\<rparr> else u)
                         (users s)\<rparr>)"

text \<open>\<^verbatim>\<open>DELETE FROM users WHERE email=$email\<close>\<close>

definition delete_user :: "string \<Rightarrow> 'm db \<Rightarrow> js_error + int \<times> 'm db" where
  "delete_user e s =
     Inr (int (length (filter (\<lambda>u. u_email u = e) (users s))),
          s\<lparr>users := filter (\<lambda>u. u_email u \<noteq> e) (users s)\<rparr>)"

text \<open>\<^verbatim>\<open>SELECT * FROM users\<close>, \<^verbatim>\<open>SELECT * FROM orders\<close>,
  \<^verbatim>\<open>SELECT * FROM orders WHERE uid = $uid\<close>\<close>

definition select_users :: "'m db \<Rightarrow> user_row list" where
  "select_users s = users s"

definition select_orders :: "'m db \<Rightarrow> 'm order_row list" where
  "select_orders s = orders s"

definition select_orders_by_uid :: "int \<Rightarrow> 'm db \<Rightarrow> 'm order_row list" where
  "select_orders_by_uid uid s = filter (\<lambda>r. o_uid r = uid) (orders s)"

text \<open>
  \<^verbatim>\<open>INSERT INTO orders (uid,item_numbers,total_price,order_items,is_paid,is_delivered)
  VALUES (?,?,?,?,?,?)\<close>: item_numbers, total_price and order_items are NOT NULL (a NaN
  and an \<^verbatim>\<open>undefined\<close> parameter bind as NULL), and both flags are CHECKed to be 0
  or 1.
\<close>

definition insert_order ::
  "int \<Rightarrow> number \<Rightarrow> number \<Rightarrow> 'm json_text option \<Rightarrow> int \<Rightarrow> int \<Rightarrow> 'm db \<Rightarrow> js_error + int \<times> 'm db" where
  "insert_order uid cnt tot txt paid delivered s =
     (case txt of
        None \<Rightarrow> Inl (SqliteError ''NOT NULL constraint failed: orders.order_items'')
      | Some t \<Rightarrow>
          if cnt = NaN then Inl (SqliteError ''NOT NULL constraint failed: orders.item_numbers'')
          else if tot = NaN
          then Inl (SqliteError ''NOT NULL constraint failed: orders.total_price'')
          else if paid \<notin> {0, 1} then Inl (SqliteError ''CHECK constraint failed: is_paid IN (0,1)'')
          else if delivered \<notin> {0, 1}
          then Inl (SqliteError ''CHECK constraint failed: is_delivered IN (0,1)'')
          else
            (let i = next_rowid (orders_seq s) (map o_id (orders s))
             in Inr (1, s\<lparr>orders := orders s @
                            [\<lparr>o_id = i, o_uid = uid, item_numbers = cnt, is_paid = paid,
                              is_delivered = delivered, total_price = tot, order_items = t\<rparr>],
                          orders_seq := i, last_rowid := i\<rparr>)))"

text \<open>\<^verbatim>\<open>UPDATE orders SET is_paid=$isPaid, is_delivered=$isDelivered WHERE id=$orderID\<close>:
  the CHECKs are evaluated on the rows the statement changes.\<close>

definition update_order :: "int \<Rightarrow> int \<Rightarrow> int \<Rightarrow> 'm db \<Rightarrow> js_error + int \<times> 'm db" where
  "update_order i paid delivered s =
     (if filter (\<lambda>r. o_id r = i) (orders s) = [] then Inr (0, s)
      else if paid \<notin> {0, 1} then Inl (SqliteError ''CHECK constraint failed: is_paid IN (0,1)'')
      else if delivered \<notin> {0, 1}
      then Inl (SqliteError ''CHECK constraint failed: is_delivered IN (0,1)'')
      else
        Inr (int (length (filter (\<lambda>r. o_id r = i) (orders s))),
             s\<lparr>orders := map (\<lambda>r. if o_id r = i
                                    then r\<lparr>is_paid := paid, is_delivered := delivered\<rparr> else r)
                             (orders s)\<rparr>))"

text \<open>
  \<^verbatim>\<open>INSERT INTO cart (uid, cart_items) VALUES ($uid, $itemstr)
  ON CONFLICT (uid) DO UPDATE SET cart_items=excluded.cart_items\<close>: cart_items is NOT NULL.
\<close>

definition upsert_cart :: "int \<Rightarrow> 'm json_text option \<Rightarrow> 'm db \<Rightarrow> js_error + int \<times> 'm db" where
  "upsert_cart uid txt s =
     (case txt of
        None \<Rightarrow> Inl (SqliteError ''NOT NULL constraint failed: cart.cart_items'')
      | Some t \<Rightarrow>
          if uid \<in> set (map c_uid (cart s))
          then Inr (1, s\<lparr>cart := map (\<lambda>r. if c_uid r = uid then r\<lparr>cart_items := t\<rparr> else r)
                                    (cart s)\<rparr>)
          else
            (let i = next_rowid 0 (map c_rowid (cart s))
             in Inr (1, s\<lparr>cart := cart s @ [\<lparr>c_rowid = i, c_uid = uid, cart_items = t\<rparr>],
                          last_rowid := i\<rparr>)))"

text \<open>\<^verbatim>\<open>SELECT * FROM cart WHERE uid=$uid\<close>\<close>

definition select_cart_by_uid :: "int \<Rightarrow> 'm db \<Rightarrow> 'm cart_row option" where
  "select_cart_by_uid uid s = find (\<lambda>r. c_uid r = uid) (cart s)"

subsection \<open>The result envelope\<close>

text \<open>
  \<^verbatim>\<open>{status: 'OK', ...data}\<close> is \<open>OK data\<close> and \<^verbatim>\<open>{status: 'error', message}\<close> is
  \<open>Err message\<close>. The data are the further properties of the object each operation
  builds.
\<close>

datatype 'm data =
    NoData
  | UserData int string string
  | UpdatedData string string
  | RunData run_info
  | UsersData "user_row list"
  | OrdersData "'m order_row list"
  | OrderIdData int
  | ItemsData "'m item_scheme list"

datatype 'm envelope = OK "'m data" | Err string

type_synonym 'm result = "(js_error + 'm envelope) \<times> 'm db"

subsection \<open>The repository operations\<close>

definition checkEmailTaken :: "string \<Rightarrow> 'm db \<Rightarrow> 'm result" where
  "checkEmailTaken email s =
     (case dbGet (select_user_by_email email) s of
        Inr result \<Rightarrow>
          (case result of
             Some row \<Rightarrow> (Inr (Err ''The email is already used.''), s)
           | None \<Rightarrow> (Inr (OK NoData), s))
      | Inl e \<Rightarrow> (Inr (Err (message e)), s))"

definition createUser :: "string \<Rightarrow> string \<Rightarrow> string \<Rightarrow> 'm db \<Rightarrow> 'm result" where
  "createUser name email password s =
     (case checkEmailTaken email s of
        (Inl e, s1) \<Rightarrow> (Inr (Err ''Failed to insert user!''), s1)
      | (Inr check, s1) \<Rightarrow>
          (case check of
             Err m \<Rightarrow> (Inr check, s1)
           | OK d \<Rightarrow>
               (case dbRun (insert_user name email password) s1 of
                  (Inr res, s2) \<Rightarrow> (Inr (OK (UserData (lastID res) name email)), s2)
                | (Inl e, s2) \<Rightarrow> (Inr (Err ''Failed to insert user!''), s2))))"

definition checkUser :: "string \<Rightarrow> string \<Rightarrow> 'm db \<Rightarrow> 'm result" where
  "checkUser email password s =
     (case dbGet (select_user_by_login email password) s of
        Inr res \<Rightarrow>
          (case res of
             Some row \<Rightarrow> (Inr (OK (UserData (u_id row) (u_name row) email)), s)
           | None \<Rightarrow> (Inr (Err ''Wrong email or password.''), s))
      | Inl e \<Rightarrow> (Inr (Err ''Failed to login user!''), s))"

definition updateUser :: "int \<Rightarrow> string \<Rightarrow> string \<Rightarrow> 'm db \<Rightarrow> 'm result" where
  "updateUser userID name password s =
     (if name = [] \<or> password = []
      then (Inr (Err ''New Name and Password can't be empty.''), s)
      else
        (case dbRun (update_user name password userID) s of
           (Inr res, s1) \<Rightarrow>
             (Inr (OK (UpdatedData ''User name and password update successfully.'' name)), s1)
         | (Inl e, s1) \<Rightarrow> (Inr (Err ''Failed to update user!''), s1)))"

definition deleteUser :: "string \<Rightarrow> 'm db \<Rightarrow> 'm result" where
  "deleteUser email s =
     (case dbRun (delete_user email) s of
        (Inr res, s1) \<Rightarrow> (Inr (OK (RunData res)), s1)
      | (Inl e, s1) \<Rightarrow> (Inr (Err ''Failed to delete user!''), s1))"

definition getAllUsers :: "'m db \<Rightarrow> 'm result" where
  "getAllUsers s =
     (case dbAll select_users s of
        Inr res \<Rightarrow> (Inr (OK (UsersData res)), s)
      | Inl e \<Rightarrow> (Inr (Err ''Failed to get all users!''), s))"

definition getAllOrders :: "'m db \<Rightarrow> 'm result" where
  "getAllOrders s =
     (case dbAll select_orders s of
        Inr res \<Rightarrow> (Inr (OK (OrdersData res)), s)
      | Inl e \<Rightarrow> (Inr (Err ''Failed to get all orders!''), s))"

definition getOrdersByUser :: "int \<Rightarrow> 'm db \<Rightarrow> 'm result" where
  "getOrdersByUser userID s =
     (case dbAll (select_orders_by_uid userID) s of
        Inr res \<Rightarrow> (Inr (OK (OrdersData res)), s)
      | Inl e \<Rightarrow> (Inr (Err ''Failed to get orders by user!''), s))"

text \<open>
  In \<open>createOrder\<close> the \<^verbatim>\<open>items.reduce(...)\<close> and the \<^verbatim>\<open>JSON.stringify(items)\<close> stand
  before the \<^verbatim>\<open>try\<close>: with \<^verbatim>\<open>items\<close> undefined the property access throws a
  TypeError that nothing catches, and the promise rejects.
\<close>

text \<open>
  The fields of an item are typed \<open>real\<close>: a field holds a finite number, and the number
  the program computes with is the double nearest to it, which is the field itself when
  it is a double and what the numeric literal denotes when it is written in decimal.
\<close>

definition order_totals :: "'m item_scheme list \<Rightarrow> number \<times> number" where
  "order_totals items =
     foldl (\<lambda>(cnt, sum) itm.
              (js_add cnt (binary64 (quantity itm)),
               js_add sum (Math_round (js_mul (js_mul (binary64 (quantity itm))
                                                      (binary64 (price itm)))
                                              (Num 100)))))
           (Num 0, Num 0) items"

definition createOrder :: "int \<Rightarrow> 'm item_scheme list option \<Rightarrow> 'm db \<Rightarrow> 'm result" where
  "createOrder userID items s =
     (case items of
        None \<Rightarrow> (Inl (TypeError ''Cannot read properties of undefined (reading 'reduce')''), s)
      | Some arr \<Rightarrow>
          (case order_totals arr of
             (itemNumber, totalPrice) \<Rightarrow>
               (let orderItems = JSON_stringify items
                in case dbRun (insert_order userID itemNumber totalPrice orderItems 0 0) s of
                     (Inr res, s1) \<Rightarrow> (Inr (OK (OrderIdData (lastID res))), s1)
                   | (Inl e, s1) \<Rightarrow> (Inr (Err ''Failed to insert orders!''), s1))))"

definition updateOrder :: "int \<Rightarrow> int \<Rightarrow> int \<Rightarrow> 'm db \<Rightarrow> 'm result" where
  "updateOrder orderID isPaid isDelivered s =
     (case dbRun (update_order orderID isPaid isDelivered) s of
        (Inr res, s1) \<Rightarrow> (Inr (OK (RunData res)), s1)
      | (Inl e, s1) \<Rightarrow> (Inr (Err ''update order error''), s1))"

definition updateCart :: "int \<Rightarrow> 'm item_scheme list option \<Rightarrow> 'm db \<Rightarrow> 'm result" where
  "updateCart uid items s =
     (case dbRun (upsert_cart uid (JSON_stringify items)) s of
        (Inr res, s1) \<Rightarrow> (Inr (OK (RunData res)), s1)
      | (Inl e, s1) \<Rightarrow> (Inr (Err ''update cart error''), s1))"

definition getCart :: "int \<Rightarrow> 'm db \<Rightarrow> 'm result" where
  "getCart uid s =
     (case dbGet (select_cart_by_uid uid) s of
        Inr res \<Rightarrow>
          (case res of
             None \<Rightarrow> (Inr (OK (ItemsData [])), s)
           | Some row \<Rightarrow> (Inr (OK (ItemsData (JSON_parse (cart_items row)))), s))
      | Inl e \<Rightarrow> (Inr (Err ''Failed to get cart items!''), s))"

subsection \<open>Inputs and databases of the examples\<close>

text \<open>The line item with the integer quantity and price of a pair.\<close>

definition int_item :: "int \<times> int \<Rightarrow> item" where
  "int_item qp = \<lparr>price = of_int (snd qp), quantity = of_int (fst qp)\<rparr>"

text \<open>One user signed up on the new database.\<close>

definition alice_db :: "unit db" where
  "alice_db = snd (createUser ''Alice'' ''alice@example.com'' ''secret'' createDataBase)"

text \<open>One order placed on the new database and marked delivered before it is paid.\<close>

definition delivered_db :: "unit db" where
  "delivered_db =
     snd (updateOrder 1 0 1
            (snd (createOrder 1 (Some [\<lparr>price = 5, quantity = 1\<rparr>]) createDataBase)))"

section \<open>Properties\<close>

subsection \<open>Orders\<close>

lemmas binary64_eval = binary64_def scale_down.simps scale_up.simps round_even_def

lemma order_totals_foldl:
  "foldl (\<lambda>(cnt, sum) itm. (js_add cnt (f itm), js_add sum (g itm))) (c, t) items =
   (foldl js_add c (map f items), foldl js_add t (map g items))"
  by (induction items arbitrary: c t) simp_all

lemma order_totals_folds:
  "order_totals items =
     (foldl js_add (Num 0) (map (\<lambda>itm. binary64 (quantity itm)) items),
      foldl js_add (Num 0)
        (map (\<lambda>itm. Math_round (js_mul (js_mul (binary64 (quantity itm)) (binary64 (price itm)))
                                         (Num 100)))
           items))"
  by (simp add: order_totals_def order_totals_foldl)

lemma dbRun_insert_order:
  "conn_open s \<Longrightarrow>
   dbRun (insert_order uid cnt tot (Some t) 0 0) s =
     (if cnt = NaN \<or> tot = NaN
      then (Inl (SqliteError
                  (if cnt = NaN then ''NOT NULL constraint failed: orders.item_numbers''
                   else ''NOT NULL constraint failed: orders.total_price'')), s)
      else
        (let i = next_rowid (orders_seq s) (map o_id (orders s))
         in (Inr \<lparr>lastID = i, changes = 1\<rparr>,
             s\<lparr>orders := orders s @
                  [\<lparr>o_id = i, o_uid = uid, item_numbers = cnt, is_paid = 0,
                    is_delivered = 0, total_price = tot, order_items = t\<rparr>],
               orders_seq := i, last_rowid := i\<rparr>)))"
  by (simp add: dbRun_def insert_order_def Let_def)

lemma createOrder_Some:
  "conn_open s \<Longrightarrow>
   createOrder userID (Some items) s =
     (if fst (order_totals items) = NaN \<or> snd (order_totals items) = NaN
      then (Inr (Err ''Failed to insert orders!''), s)
      else
        (let i = next_rowid (orders_seq s) (map o_id (orders s))
         in (Inr (OK (OrderIdData i)),
             s\<lparr>orders := orders s @
                  [\<lparr>o_id = i, o_uid = userID, item_numbers = fst (order_totals items),
                    is_paid = 0, is_delivered = 0, total_price = snd (order_totals items),
                    order_items = JSON_text items\<rparr>],
               orders_seq := i, last_rowid := i\<rparr>)))"
  by (simp add: createOrder_def dbRun_insert_order JSON_stringify_def Let_def split: prod.splits)

lemma example_totals:
  "order_totals [\<lparr>price = 1000, quantity = 2\<rparr>, \<lparr>price = 250, quantity = 1\<rparr>] =
     (Num 3, Num 225000)"
  by (simp add: order_totals_def binary64_eval)

text \<open>
  Claim C1, as the code has it. On an open connection, \<open>createOrder\<close> with the items
  \<^verbatim>\<open>[{price:1000,quantity:2},{price:250,quantity:1}]\<close> resolves with OK and the new
  id, and appends one order row with \<open>item_numbers = 3\<close>, \<open>is_paid = 0\<close>,
  \<open>is_delivered = 0\<close> and \<open>total_price = 225000\<close>: each line is
  \<open>quantity * price * 100\<close>, so the total is \<open>200000 + 25000\<close>, not \<open>2250\<close>.
\<close>

theorem createOrder_example:
  assumes "conn_open s"
  shows "createOrder userID (Some [\<lparr>price = 1000, quantity = 2\<rparr>, \<lparr>price = 250, quantity = 1\<rparr>]) s =
     (let i = next_rowid (orders_seq s) (map o_id (orders s))
      in (Inr (OK (OrderIdData i)),
          s\<lparr>orders := orders s @
               [\<lparr>o_id = i, o_uid = userID, item_numbers = Num 3, is_paid = 0, is_delivered = 0,
                 total_price = Num 225000,
                 order_items = JSON_text [\<lparr>price = 1000, quantity = 2\<rparr>,
                                          \<lparr>price = 250, quantity = 1\<rparr>]\<rparr>],
            orders_seq := i, last_rowid := i\<rparr>))"
  using assms by (simp add: createOrder_Some example_totals Let_def)

theorem createOrder_example_witness:
  "conn_open (createDataBase :: unit db) \<and>
   createOrder 7 (Some [\<lparr>price = 1000, quantity = 2\<rparr>, \<lparr>price = 250, quantity = 1\<rparr>])
       (createDataBase :: unit db) =
     (Inr (OK (OrderIdData 1)),
      \<lparr>conn_open = True, users = [], users_seq = 0,
       orders = [\<lparr>o_id = 1, o_uid = 7, item_numbers = Num 3, is_paid = 0, is_delivered = 0,
                  total_price = Num 225000,
                  order_items = JSON_text [\<lparr>price = 1000, quantity = 2\<rparr>,
                                           \<lparr>price = 250, quantity = 1\<rparr>]\<rparr>],
       orders_seq = 1, cart = [], last_rowid = 1\<rparr>)"
  using createOrder_example [of "createDataBase :: unit db" 7]
  by (simp add: createDataBase_def next_rowid_def)

text \<open>
  Claim C1 as stated fails: on the new database the one order row that \<open>createOrder\<close>
  inserts for these items has the total price 225000, not 2250.
\<close>

theorem createOrder_example_total_not_2250:
  "map total_price (orders (snd (createOrder 7
       (Some [\<lparr>price = 1000, quantity = 2\<rparr>, \<lparr>price = 250, quantity = 1\<rparr>])
       (createDataBase :: unit db)))) = [Num 225000] \<and>
   map total_price (orders (snd (createOrder 7
       (Some [\<lparr>price = 1000, quantity = 2\<rparr>, \<lparr>price = 250, quantity = 1\<rparr>])
       (createDataBase :: unit db)))) \<noteq> [Num 2250]"
  by (simp add: createOrder_Some createDataBase_def Let_def example_totals)

text \<open>
  Claim C2, as the code has it. On an open connection, for every user id and every list
  of items, \<open>createOrder\<close> computes \<open>item_numbers\<close> as the binary64 sum of the
  quantities, added from 0 in the order of the list, and \<open>total_price\<close> as the binary64
  sum, added the same way, of the lines \<open>Math.round(quantity * price * 100)\<close>, both
  products rounded to binary64: each line is rounded to an integer, then the rounded
  lines are added. It appends one order row with these two values and the flags 0 and
  resolves with OK and the new id; when one of the two values is NaN it inserts
  nothing and resolves with the error envelope instead.
\<close>

theorem createOrder_totals:
  assumes "conn_open s"
  shows "createOrder userID (Some items) s =
     (let cnt = foldl js_add (Num 0) (map (\<lambda>itm. binary64 (quantity itm)) items);
          tot = foldl js_add (Num 0)
                  (map (\<lambda>itm. Math_round (js_mul (js_mul (binary64 (quantity itm))
                                                           (binary64 (price itm)))
                                                   (Num 100)))
                     items);
          i = next_rowid (orders_seq s) (map o_id (orders s))
      in if cnt = NaN \<or> tot = NaN then (Inr (Err ''Failed to insert orders!''), s)
         else
           (Inr (OK (OrderIdData i)),
            s\<lparr>orders := orders s @
                 [\<lparr>o_id = i, o_uid = userID, item_numbers = cnt, is_paid = 0, is_delivered = 0,
                   total_price = tot, order_items = JSON_text items\<rparr>],
              orders_seq := i, last_rowid := i\<rparr>))"
  using assms by (simp add: createOrder_Some order_totals_folds Let_def)

text \<open>
  The witness has a line whose exact value is a tie: \<open>1 * 1.005 * 100\<close> is
  \<open>100.49999999999999\<close> in binary64 and rounds to 100.
\<close>

theorem createOrder_totals_witness:
  "conn_open (createDataBase :: unit db) \<and>
   createOrder 7 (Some [\<lparr>price = 1.005, quantity = 1\<rparr>, \<lparr>price = 19.99, quantity = 3\<rparr>])
       (createDataBase :: unit db) =
     (Inr (OK (OrderIdData 1)),
      \<lparr>conn_open = True, users = [], users_seq = 0,
       orders = [\<lparr>o_id = 1, o_uid = 7, item_numbers = Num 4, is_paid = 0, is_delivered = 0,
                  total_price = Num 6097,
                  order_items = JSON_text [\<lparr>price = 1.005, quantity = 1\<rparr>,
                                           \<lparr>price = 19.99, quantity = 3\<rparr>]\<rparr>],
       orders_seq = 1, cart = [], last_rowid = 1\<rparr>)"
  using createOrder_totals [of "createDataBase :: unit db" 7
      "[\<lparr>price = 1.005, quantity = 1\<rparr>, \<lparr>price = 19.99, quantity = 3\<rparr>]"]
  by (simp add: createDataBase_def next_rowid_def binary64_eval)

lemma big_totals:
  "order_totals [\<lparr>price = 3002399751580331, quantity = 3\<rparr>] =
     (Num 3, Num 900719925474099200)"
  by (simp add: order_totals_def binary64_eval)

lemma tenth_totals:
  "order_totals [\<lparr>price = 1, quantity = 3602879701896397 / 36028797018963968\<rparr>,
                 \<lparr>price = 1, quantity = 3602879701896397 / 18014398509481984\<rparr>] =
     (Num (1351079888211149 / 4503599627370496), Num 30)"
  by (simp add: order_totals_def binary64_eval)

text \<open>
  Claim C2 as stated fails, the sums being exact ones. With the price
  3002399751580331 and the quantity 3 the row holds the total price
  900719925474099200, while \<open>quantity * price * 100\<close> rounded is 900719925474099300.
  With the quantities 0.1 and 0.2, as doubles, the row holds 0.30000000000000004 as
  \<open>item_numbers\<close>, which is not the sum of the two.
\<close>

theorem createOrder_totals_not_exact:
  "map total_price (orders (snd (createOrder 1
       (Some [\<lparr>price = 3002399751580331, quantity = 3\<rparr>])
       (createDataBase :: unit db)))) = [Num 900719925474099200] \<and>
   real_of_int (round (3 * 3002399751580331 * 100 :: real)) = 900719925474099300 \<and>
   map item_numbers (orders (snd (createOrder 1
       (Some [\<lparr>price = 1, quantity = 3602879701896397 / 36028797018963968\<rparr>,
              \<lparr>price = 1, quantity = 3602879701896397 / 18014398509481984\<rparr>])
       (createDataBase :: unit db)))) = [Num (1351079888211149 / 4503599627370496)] \<and>
   (3602879701896397 / 36028797018963968 + 3602879701896397 / 18014398509481984 :: real) \<noteq>
     1351079888211149 / 4503599627370496"
  by (simp add: createOrder_Some createDataBase_def Let_def big_totals tenth_totals round_def)

text \<open>
  Rounding once, after adding the unrounded lines, is another function: two lines of
  \<open>0.4\<close> each round to 0 and add up to 0, while their sum \<open>0.8\<close> rounds to 1.
\<close>

lemma round_once_differs:
  "snd (order_totals [\<lparr>price = 0.004, quantity = 1\<rparr>, \<lparr>price = 0.004, quantity = 1\<rparr>]) = Num 0 \<and>
   Math_round (js_add (js_mul (js_mul (binary64 1) (binary64 0.004)) (Num 100))
                      (js_mul (js_mul (binary64 1) (binary64 0.004)) (Num 100))) = Num 1"
  by (simp add: order_totals_def binary64_eval)

text \<open>
  Overflow: two lines of \<open>2 * 2^1023 * 100\<close> with opposite signs are the two infinities,
  their sum is NaN, which binds as NULL, and the NOT NULL column rejects the row.
\<close>

lemma scale_down_pow:
  "9007199254740992 \<le> x \<Longrightarrow> e + int k \<le> 972 \<Longrightarrow>
   scale_down (x * 2 ^ k) e = scale_down x (e + int k)"
proof (induction k arbitrary: e)
  case 0
  then show ?case by simp
next
  case (Suc k)
  define y where "y = x * 2 ^ k"
  have "(1::real) \<le> 2 ^ k"
    by (rule one_le_power) simp
  with Suc.prems(1) have "x * 1 \<le> x * 2 ^ k"
    by (intro mult_left_mono) auto
  then have "x \<le> x * 2 ^ k"
    by (simp only: mult_1_right)
  with Suc.prems(1) have y: "9007199254740992 \<le> y"
    unfolding y_def by linarith
  from Suc.prems(2) have e: "e < 972" by simp
  have "x * 2 ^ Suc k = 2 * y"
    by (simp add: y_def)
  then have "scale_down (x * 2 ^ Suc k) e = scale_down (2 * y) e"
    by (simp only:)
  also from y e have "\<dots> = scale_down y (e + 1)"
    by (subst scale_down.simps) simp
  also have "\<dots> = scale_down x (e + 1 + int k)"
    unfolding y_def using Suc.prems by (intro Suc.IH) auto
  finally show ?case by (simp add: add.commute add.left_commute)
qed

lemma scale_down_1023: "scale_down (2 ^ 1023) 0 = (4503599627370496, 971)"
proof -
  have "(2::real) ^ 1023 = 9007199254740992 * 2 ^ 970"
    by simp
  then have "scale_down (2 ^ 1023) 0 = scale_down 9007199254740992 970"
    using scale_down_pow [of 9007199254740992 0 970] by simp
  also have "\<dots> = (4503599627370496, 971)"
    by (simp add: scale_down.simps)
  finally show ?thesis .
qed

lemma scale_down_1024: "scale_down (2 ^ 1024) 0 = (4503599627370496, 972)"
proof -
  have "(2::real) ^ 1024 = 9007199254740992 * 2 ^ 971"
    by simp
  then have "scale_down (2 ^ 1024) 0 = scale_down 9007199254740992 971"
    using scale_down_pow [of 9007199254740992 0 971] by simp
  also have "\<dots> = (4503599627370496, 972)"
    by (simp add: scale_down.simps)
  finally show ?thesis .
qed

lemma binary64_1023: "binary64 (2 ^ 1023) = Num (2 ^ 1023)"
proof -
  have a: "\<bar>(2::real) ^ 1023\<bar> = 2 ^ 1023" and nz: "((2::real) ^ 1023 = 0) = False"
    and pos: "(0 < (2::real) ^ 1023) = True"
    by simp_all
  show ?thesis
    unfolding binary64_def a nz pos scale_down_1023
    by (simp add: scale_up.simps round_even_def)
qed

lemma binary64_m1023: "binary64 (- (2 ^ 1023)) = Num (- (2 ^ 1023))"
proof -
  have a: "\<bar>- ((2::real) ^ 1023)\<bar> = 2 ^ 1023" and nz: "(- ((2::real) ^ 1023) = 0) = False"
    and pos: "(0 < - ((2::real) ^ 1023)) = False"
    by simp_all
  show ?thesis
    unfolding binary64_def a nz pos scale_down_1023
    by (simp add: scale_up.simps round_even_def)
qed

lemma binary64_1024: "binary64 (2 ^ 1024) = PosInfinity"
proof -
  have a: "\<bar>(2::real) ^ 1024\<bar> = 2 ^ 1024" and nz: "((2::real) ^ 1024 = 0) = False"
    and pos: "(0 < (2::real) ^ 1024) = True"
    by simp_all
  show ?thesis
    unfolding binary64_def a nz pos scale_down_1024
    by (simp add: scale_up.simps round_even_def)
qed

lemma binary64_m1024: "binary64 (- (2 ^ 1024)) = NegInfinity"
proof -
  have a: "\<bar>- ((2::real) ^ 1024)\<bar> = 2 ^ 1024" and nz: "(- ((2::real) ^ 1024) = 0) = False"
    and pos: "(0 < - ((2::real) ^ 1024)) = False"
    by simp_all
  show ?thesis
    unfolding binary64_def a nz pos scale_down_1024
    by (simp add: scale_up.simps round_even_def)
qed

lemma overflow_lines:
  assumes "binary64 p = Num p" and "js_mul (Num 2) (Num p) = PosInfinity"
    and "binary64 (- p) = Num (- p)" and "js_mul (Num 2) (Num (- p)) = NegInfinity"
  shows "order_totals [\<lparr>price = p, quantity = 2\<rparr>, \<lparr>price = - p, quantity = 2\<rparr>] = (Num 4, NaN)"
proof -
  have "binary64 2 = Num 2" and "binary64 4 = Num 4"
    by (simp_all add: binary64_eval)
  with assms show ?thesis
    by (simp add: order_totals_def)
qed

lemma overflow_totals:
  "order_totals [\<lparr>price = 2 ^ 1023, quantity = 2\<rparr>, \<lparr>price = - (2 ^ 1023), quantity = 2\<rparr>] =
     (Num 4, NaN)"
proof (rule overflow_lines)
  show "binary64 (2 ^ 1023) = Num (2 ^ 1023)"
    by (rule binary64_1023)
  show "binary64 (- (2 ^ 1023)) = Num (- (2 ^ 1023))"
    by (rule binary64_m1023)
  have "(2::real) * 2 ^ 1023 = 2 ^ 1024" by simp
  then show "js_mul (Num 2) (Num (2 ^ 1023)) = PosInfinity"
    unfolding js_mul.simps by (simp only: binary64_1024)
  have "(2::real) * - (2 ^ 1023) = - (2 ^ 1024)" by simp
  then show "js_mul (Num 2) (Num (- (2 ^ 1023))) = NegInfinity"
    unfolding js_mul.simps by (simp only: binary64_m1024)
qed

lemma createOrder_NaN:
  "conn_open s \<Longrightarrow> order_totals items = (cnt, NaN) \<Longrightarrow>
   createOrder userID (Some items) s = (Inr (Err ''Failed to insert orders!''), s)"
  by (simp add: createOrder_def dbRun_def insert_order_def JSON_stringify_def)

lemma createOrder_overflow:
  "createOrder 1 (Some [\<lparr>price = 2 ^ 1023, quantity = 2\<rparr>, \<lparr>price = - (2 ^ 1023), quantity = 2\<rparr>])
       (createDataBase :: unit db) =
     (Inr (Err ''Failed to insert orders!''), createDataBase)"
proof (rule createOrder_NaN)
  show "conn_open (createDataBase :: unit db)"
    by (simp add: createDataBase_def)
  show "order_totals [\<lparr>price = 2 ^ 1023, quantity = 2\<rparr>, \<lparr>price = - (2 ^ 1023), quantity = 2\<rparr>] =
          (Num 4, NaN)"
    by (rule overflow_totals)
qed

text \<open>
  Where no rounding happens the sums are the exact ones: for items whose quantities and
  prices are integers, with prices, the sum of the quantities' magnitudes and the sum
  of the lines' magnitudes all below \<open>2^53\<close>.
\<close>

lemma scale_up_pow: "\<exists>j. scale_up x e = (x * 2 ^ j, e - int j)"
proof (induction x e rule: scale_up.induct)
  case (1 x e)
  show ?case
  proof (cases "x < 4503599627370496 \<and> - 1074 < e")
    case True
    with 1 obtain j where "scale_up (2 * x) (e - 1) = (2 * x * 2 ^ j, e - 1 - int j)"
      by blast
    with True have "scale_up x e = (x * 2 ^ Suc j, e - int (Suc j))"
      by (subst scale_up.simps) simp
    then show ?thesis by blast
  next
    case False
    then have "scale_up x e = (x * 2 ^ 0, e - int 0)"
      by (subst scale_up.simps) auto
    then show ?thesis by blast
  qed
qed

lemma round_even_of_int: "round_even (of_int k) = k"
  by (simp add: round_even_def)

lemma binary64_of_nat_exact:
  assumes "0 < n" and "n < 9007199254740992"
  shows "binary64 (of_int n) = Num (of_int n)" and "binary64 (- of_int n) = Num (- of_int n)"
proof -
  let ?a = "of_int n :: real"
  from assms have a: "0 < ?a" "?a < 9007199254740992"
    by simp_all
  then have down: "scale_down ?a 0 = (?a, 0)"
    by (subst scale_down.simps) simp
  obtain j where up: "scale_up ?a 0 = (?a * 2 ^ j, 0 - int j)"
    using scale_up_pow by blast
  have m: "?a * 2 ^ j = of_int (n * 2 ^ j)"
    by simp
  have unscale: "(if 0 \<le> 0 - int j then of_int (n * 2 ^ j) * 2 ^ nat (0 - int j)
               else of_int (n * 2 ^ j) / 2 ^ nat (- (0 - int j))) = ?a"
  proof (cases "j = 0")
    case True
    then show ?thesis by simp
  next
    case False
    then have "\<not> 0 \<le> 0 - int j"
      by simp
    moreover have "nat (- (0 - int j)) = j"
      by simp
    ultimately show ?thesis
      by (simp only: if_False of_int_mult of_int_power of_int_numeral) simp
  qed
  have small: "\<not> (2::real) ^ 1024 \<le> ?a"
  proof -
    have "(9007199254740992::real) \<le> 2 ^ 1024" by simp
    with a(2) show ?thesis by linarith
  qed
  from a have abs1: "\<bar>?a\<bar> = ?a" and abs2: "\<bar>- ?a\<bar> = ?a"
    and nz: "?a \<noteq> 0" "- ?a \<noteq> 0" and sg: "0 < ?a" "\<not> 0 < - ?a"
    by simp_all
  show "binary64 (of_int n) = Num (of_int n)"
    unfolding binary64_def abs1 down prod.case up m round_even_of_int Let_def unscale
    using nz sg small by simp
  show "binary64 (- of_int n) = Num (- of_int n)"
    unfolding binary64_def abs2 down prod.case up m round_even_of_int Let_def unscale
    using nz sg small by simp
qed

lemma binary64_of_int_exact:
  assumes "\<bar>n\<bar> < 9007199254740992"
  shows "binary64 (of_int n) = Num (of_int n)"
proof -
  consider "n = 0" | "0 < n" | "n < 0" by linarith
  then show ?thesis
  proof cases
    case 1
    then show ?thesis by (simp add: binary64_def)
  next
    case 2
    with assms show ?thesis by (intro binary64_of_nat_exact) auto
  next
    case 3
    with assms have "binary64 (- of_int (- n)) = Num (- of_int (- n))"
      by (intro binary64_of_nat_exact) auto
    then show ?thesis by simp
  qed
qed

lemma Math_round_of_int: "Math_round (Num (of_int k)) = Num (of_int k)"
proof -
  have "\<lfloor>(of_int k :: real) + 1 / 2\<rfloor> = k"
    by (simp add: floor_eq_iff)
  then show ?thesis by simp
qed

lemma js_add_ints:
  "\<bar>a + b\<bar> < 9007199254740992 \<Longrightarrow>
   js_add (Num (of_int a)) (Num (of_int b)) = Num (of_int (a + b))"
  using binary64_of_int_exact [of "a + b"] by simp

lemma js_mul_ints:
  "\<bar>a * b\<bar> < 9007199254740992 \<Longrightarrow>
   js_mul (Num (of_int a)) (Num (of_int b)) = Num (of_int (a * b))"
  using binary64_of_int_exact [of "a * b"] by simp

lemma sum_abs_nonneg: "0 \<le> (\<Sum>x\<leftarrow>xs. \<bar>f x :: int\<bar>)"
  by (induction xs) simp_all

lemma line_exact:
  assumes "\<bar>q\<bar> < 9007199254740992" and "\<bar>p\<bar> < 9007199254740992"
    and "\<bar>q * p * 100\<bar> < 9007199254740992"
  shows "Math_round (js_mul (js_mul (binary64 (of_int q)) (binary64 (of_int p))) (Num 100)) =
           Num (of_int (q * p * 100))"
proof -
  have "\<bar>q * p\<bar> \<le> \<bar>q * p\<bar> * 100"
    by simp
  also have "\<dots> = \<bar>q * p * 100\<bar>"
    by (simp add: abs_mult)
  finally have qp: "\<bar>q * p\<bar> < 9007199254740992"
    using assms(3) by linarith
  have "js_mul (js_mul (binary64 (of_int q)) (binary64 (of_int p))) (Num 100) =
          js_mul (Num (of_int (q * p))) (Num (of_int 100))"
    using assms(1,2) qp by (simp only: binary64_of_int_exact js_mul_ints) simp
  also have "\<dots> = Num (of_int (q * p * 100))"
    using assms(3) by (rule js_mul_ints)
  finally show ?thesis
    by (simp only: Math_round_of_int)
qed

lemma totals_exact_aux:
  assumes "\<forall>qp\<in>set qps. \<bar>snd qp\<bar> < 9007199254740992"
    and "\<bar>c\<bar> + (\<Sum>qp\<leftarrow>qps. \<bar>fst qp\<bar>) < 9007199254740992"
    and "\<bar>t\<bar> + (\<Sum>qp\<leftarrow>qps. \<bar>fst qp * snd qp * 100\<bar>) < 9007199254740992"
  shows "foldl (\<lambda>(cnt, sum) itm.
              (js_add cnt (binary64 (quantity itm)),
               js_add sum (Math_round (js_mul (js_mul (binary64 (quantity itm))
                                                      (binary64 (price itm)))
                                              (Num 100)))))
           (Num (of_int c), Num (of_int t)) (map int_item qps) =
         (Num (of_int (c + (\<Sum>qp\<leftarrow>qps. fst qp))),
          Num (of_int (t + (\<Sum>qp\<leftarrow>qps. fst qp * snd qp * 100))))"
  using assms
proof (induction qps arbitrary: c t)
  case Nil
  then show ?case by simp
next
  case (Cons qp qps)
  obtain q p where qp: "qp = (q, p)" by (cases qp)
  have r1: "0 \<le> (\<Sum>x\<leftarrow>qps. \<bar>fst x\<bar>)" and r2: "0 \<le> (\<Sum>x\<leftarrow>qps. \<bar>fst x * snd x * 100\<bar>)"
    by (rule sum_abs_nonneg)+
  from Cons.prems(1) have p: "\<bar>p\<bar> < 9007199254740992"
    by (simp add: qp)
  from Cons.prems(2) r1 have q: "\<bar>q\<bar> < 9007199254740992" and cq: "\<bar>c + q\<bar> < 9007199254740992"
    and c': "\<bar>c + q\<bar> + (\<Sum>x\<leftarrow>qps. \<bar>fst x\<bar>) < 9007199254740992"
    by (simp_all add: qp)
  from Cons.prems(3) r2 have l: "\<bar>q * p * 100\<bar> < 9007199254740992"
    and tl: "\<bar>t + q * p * 100\<bar> < 9007199254740992"
    and t': "\<bar>t + q * p * 100\<bar> + (\<Sum>x\<leftarrow>qps. \<bar>fst x * snd x * 100\<bar>) < 9007199254740992"
    by (simp_all add: qp)
  have cnt: "js_add (Num (of_int c)) (binary64 (of_int q)) = Num (of_int (c + q))"
    using q cq by (simp only: binary64_of_int_exact js_add_ints)
  have tot: "js_add (Num (of_int t))
               (Math_round (js_mul (js_mul (binary64 (of_int q)) (binary64 (of_int p))) (Num 100))) =
             Num (of_int (t + q * p * 100))"
    using q p l tl by (simp only: line_exact js_add_ints)
  from Cons.prems(1) have rest: "\<forall>qp\<in>set qps. \<bar>snd qp\<bar> < 9007199254740992"
    by simp
  show ?case
    using Cons.IH [OF rest c' t'] cnt tot
    by (simp add: qp int_item_def add.assoc)
qed

lemma order_totals_exact_on_integers:
  assumes "\<forall>qp\<in>set qps. \<bar>snd qp\<bar> < 9007199254740992"
    and "(\<Sum>qp\<leftarrow>qps. \<bar>fst qp\<bar>) < 9007199254740992"
    and "(\<Sum>qp\<leftarrow>qps. \<bar>fst qp * snd qp * 100\<bar>) < 9007199254740992"
  shows "order_totals (map int_item qps) =
           (Num (of_int (\<Sum>qp\<leftarrow>qps. fst qp)), Num (of_int (\<Sum>qp\<leftarrow>qps. fst qp * snd qp * 100)))"
  using totals_exact_aux [of qps 0 0] assms by (simp add: order_totals_def)

lemma createOrder_exact_on_integers:
  assumes "conn_open s"
    and "\<forall>qp\<in>set qps. \<bar>snd qp\<bar> < 9007199254740992"
    and "(\<Sum>qp\<leftarrow>qps. \<bar>fst qp\<bar>) < 9007199254740992"
    and "(\<Sum>qp\<leftarrow>qps. \<bar>fst qp * snd qp * 100\<bar>) < 9007199254740992"
  shows "createOrder userID (Some (map int_item qps)) s =
     (let i = next_rowid (orders_seq s) (map o_id (orders s))
      in (Inr (OK (OrderIdData i)),
          s\<lparr>orders := orders s @
               [\<lparr>o_id = i, o_uid = userID,
                 item_numbers = Num (of_int (\<Sum>qp\<leftarrow>qps. fst qp)),
                 is_paid = 0, is_delivered = 0,
                 total_price = Num (of_int (\<Sum>qp\<leftarrow>qps. fst qp * snd qp * 100)),
                 order_items = JSON_text (map int_item qps)\<rparr>],
            orders_seq := i, last_rowid := i\<rparr>))"
  using assms(1) order_totals_exact_on_integers [OF assms(2-4)]
  by (simp add: createOrder_Some Let_def)

lemma map_unmatched: "filter P xs = [] \<Longrightarrow> map (\<lambda>r. if P r then f r else r) xs = xs"
  by (induction xs) (auto split: if_splits)

lemma delivered_db_eq:
  "delivered_db = \<lparr>conn_open = True, users = [], users_seq = 0,
     orders = [\<lparr>o_id = 1, o_uid = 1, item_numbers = Num 1, is_paid = 0, is_delivered = 1,
                total_price = Num 500, order_items = JSON_text [\<lparr>price = 5, quantity = 1\<rparr>]\<rparr>],
     orders_seq = 1, cart = [], last_rowid = 1\<rparr>"
proof -
  have "order_totals [\<lparr>price = 5, quantity = 1\<rparr>] = (Num 1, Num 500)"
    by (simp add: order_totals_def binary64_eval)
  then show ?thesis
    by (simp add: delivered_db_def updateOrder_def createOrder_def JSON_stringify_def dbRun_def
        insert_order_def update_order_def createDataBase_def next_rowid_def)
qed

text \<open>
  Claim C9, as the code has it. On an open connection \<open>updateOrder\<close> with
  \<open>isPaid = 1\<close> and \<open>isDelivered = 0\<close> resolves with OK and writes both flags of
  every row with that id: \<open>is_paid\<close> becomes 1 and \<open>is_delivered\<close> becomes 0. The
  other fields of the row, the other rows and the other tables stay as they were.
\<close>

theorem updateOrder_paid_sets_both_flags:
  assumes "conn_open s"
  shows "updateOrder orderID 1 0 s =
     (Inr (OK (RunData \<lparr>lastID = last_rowid s,
                        changes = int (length (filter (\<lambda>r. o_id r = orderID) (orders s)))\<rparr>)),
      s\<lparr>orders := map (\<lambda>r. if o_id r = orderID then r\<lparr>is_paid := 1, is_delivered := 0\<rparr> else r)
                      (orders s)\<rparr>)"
  using assms by (simp add: updateOrder_def dbRun_def update_order_def map_unmatched)

theorem updateOrder_paid_sets_both_flags_witness:
  "conn_open delivered_db \<and>
   updateOrder 1 1 0 delivered_db =
     (Inr (OK (RunData \<lparr>lastID = 1, changes = 1\<rparr>)),
      \<lparr>conn_open = True, users = [], users_seq = 0,
       orders = [\<lparr>o_id = 1, o_uid = 1, item_numbers = Num 1, is_paid = 1, is_delivered = 0,
                  total_price = Num 500, order_items = JSON_text [\<lparr>price = 5, quantity = 1\<rparr>]\<rparr>],
       orders_seq = 1, cart = [], last_rowid = 1\<rparr>)"
  using updateOrder_paid_sets_both_flags [of delivered_db 1]
  by (simp add: delivered_db_eq)

text \<open>
  Claim C9 as stated fails: on the order that was marked delivered first,
  \<open>updateOrder\<close> with \<open>isPaid = 1\<close> and \<open>isDelivered = 0\<close> changes \<open>is_delivered\<close>
  from 1 to 0.
\<close>

theorem updateOrder_paid_clears_delivered:
  "map is_delivered (orders delivered_db) = [1] \<and>
   map is_delivered (orders (snd (updateOrder 1 1 0 delivered_db))) = [0]"
  by (simp add: delivered_db_eq updateOrder_def dbRun_def update_order_def)

text \<open>
  Claim C3 fails on \<open>createOrder\<close>: without \<^verbatim>\<open>items\<close> in its argument the promise
  rejects with the TypeError of \<^verbatim>\<open>items.reduce\<close>, which stands before the \<^verbatim>\<open>try\<close>.
\<close>

theorem createOrder_undefined_items_rejects:
  "createOrder 1 None (createDataBase :: unit db) =
     (Inl (TypeError ''Cannot read properties of undefined (reading 'reduce')''), createDataBase)"
  by (simp add: createOrder_def)

text \<open>
  Every other call resolves with an envelope, whatever the arguments and the state of
  the connection; so does \<open>createOrder\<close> when \<^verbatim>\<open>items\<close> is an array.
\<close>

lemma checkEmailTaken_resolves: "\<exists>env. checkEmailTaken email s = (Inr env, s)"
  by (simp add: checkEmailTaken_def split: sum.splits option.splits)

lemma createUser_resolves: "\<exists>env s'. createUser name email password s = (Inr env, s')"
  by (simp add: createUser_def split: sum.splits prod.splits envelope.splits)

lemma checkUser_resolves: "\<exists>env. checkUser email password s = (Inr env, s)"
  by (simp add: checkUser_def split: sum.splits option.splits)

lemma updateUser_resolves: "\<exists>env s'. updateUser userID name password s = (Inr env, s')"
  by (simp add: updateUser_def split: sum.splits prod.splits)

lemma deleteUser_resolves: "\<exists>env s'. deleteUser email s = (Inr env, s')"
  by (simp add: deleteUser_def split: sum.splits prod.splits)

lemma getAllUsers_resolves: "\<exists>env. getAllUsers s = (Inr env, s)"
  by (simp add: getAllUsers_def split: sum.splits)

lemma getAllOrders_resolves: "\<exists>env. getAllOrders s = (Inr env, s)"
  by (simp add: getAllOrders_def split: sum.splits)

lemma getOrdersByUser_resolves: "\<exists>env. getOrdersByUser userID s = (Inr env, s)"
  by (simp add: getOrdersByUser_def split: sum.splits)

lemma createOrder_array_resolves: "\<exists>env s'. createOrder userID (Some items) s = (Inr env, s')"
  by (simp add: createOrder_def Let_def split: sum.splits prod.splits)

lemma updateOrder_resolves: "\<exists>env s'. updateOrder orderID isPaid isDelivered s = (Inr env, s')"
  by (simp add: updateOrder_def split: sum.splits prod.splits)

lemma updateCart_resolves: "\<exists>env s'. updateCart uid items s = (Inr env, s')"
  by (simp add: updateCart_def split: sum.splits prod.splits)

lemma getCart_resolves: "\<exists>env. getCart uid s = (Inr env, s)"
  by (simp add: getCart_def split: sum.splits option.splits)

subsection \<open>Carts\<close>







text \<open>
  Claim C8. On an open connection, for every user id with no row in the cart table,
  \<open>getCart\<close> resolves with OK and the empty item list, and the database is unchanged.
\<close>

theorem getCart_no_row:
  assumes "conn_open s" and "uid \<notin> set (map c_uid (cart s))"
  shows "getCart uid s = (Inr (OK (ItemsData [])), s)"
proof -
  from assms(2) have "find (\<lambda>r. c_uid r = uid) (cart s) = None"
    by (auto simp: find_None_iff)
  with assms(1) show ?thesis
    by (simp add: getCart_def dbGet_def select_cart_by_uid_def)
qed

theorem getCart_no_row_witness:
  "conn_open (createDataBase :: unit db) \<and>
   1 \<notin> set (map c_uid (cart (createDataBase :: unit db))) \<and>
   getCart 1 (createDataBase :: unit db) = (Inr (OK (ItemsData [])), createDataBase)"
  using getCart_no_row [of "createDataBase :: unit db" 1]
  by (simp add: createDataBase_def)

subsection \<open>Users\<close>

lemma find_Some_set: "find P xs = Some x \<Longrightarrow> x \<in> set xs \<and> P x"
  by (induction xs) (auto split: if_splits)

lemma find_exists: "\<exists>x\<in>set xs. P x \<Longrightarrow> \<exists>y. find P xs = Some y"
  by (induction xs) auto

text \<open>The three outcomes of the email check.\<close>

lemma checkEmailTaken_cases:
  "checkEmailTaken email s =
     (Inr (if \<not> conn_open s then Err ''The database connection is not open''
           else if email \<in> set (map u_email (users s)) then Err ''The email is already used.''
           else OK NoData), s)"
proof (cases "email \<in> set (map u_email (users s))")
  case True
  then have "\<exists>x\<in>set (users s). u_email x = email" by auto
  from find_exists [of "users s" "\<lambda>u. u_email u = email", OF this] True show ?thesis
    by (auto simp: checkEmailTaken_def dbGet_def select_user_by_email_def not_open_def)
next
  case False
  then have "find (\<lambda>u. u_email u = email) (users s) = None"
    by (auto simp: find_None_iff)
  with False show ?thesis
    by (simp add: checkEmailTaken_def dbGet_def select_user_by_email_def not_open_def)
qed

lemma alice_db_eq:
  "alice_db = \<lparr>conn_open = True,
     users = [\<lparr>u_id = 1, u_name = ''Alice'', u_email = ''alice@example.com'',
               u_password = ''secret''\<rparr>],
     users_seq = 1, orders = [], orders_seq = 0, cart = [], last_rowid = 1\<rparr>"
  by (simp add: alice_db_def createUser_def checkEmailTaken_cases createDataBase_def dbRun_def
      insert_user_def next_rowid_def)

text \<open>
  Claim C5. On an open connection, for every email that a row of the users table
  holds, \<open>createUser\<close> resolves with the error envelope of the conflict, "The email is
  already used.", and the whole database, the existing row included, is as before.
\<close>

theorem createUser_email_taken:
  assumes "conn_open s" and "email \<in> set (map u_email (users s))"
  shows "createUser name email password s = (Inr (Err ''The email is already used.''), s)"
  using assms by (simp add: createUser_def checkEmailTaken_cases)

theorem createUser_email_taken_witness:
  "conn_open alice_db \<and> ''alice@example.com'' \<in> set (map u_email (users alice_db)) \<and>
   createUser ''Mallory'' ''alice@example.com'' ''other'' alice_db =
     (Inr (Err ''The email is already used.''), alice_db)"
  using createUser_email_taken [of alice_db "''alice@example.com''" "''Mallory''" "''other''"]
  by (simp add: alice_db_eq)

text \<open>
  Claim C6. For every user id and every state of the database, \<open>updateUser\<close> with an
  empty name or an empty password resolves with the validation error and runs no
  statement: the database it returns is the one it was given.
\<close>

theorem updateUser_empty_rejected:
  assumes "name = [] \<or> password = []"
  shows "updateUser userID name password s =
           (Inr (Err ''New Name and Password can't be empty.''), s)"
  using assms by (auto simp: updateUser_def)

theorem updateUser_empty_rejected_witness:
  "updateUser 1 ''Bob'' [] alice_db =
     (Inr (Err ''New Name and Password can't be empty.''), alice_db) \<and>
   updateUser 1 [] ''newsecret'' alice_db =
     (Inr (Err ''New Name and Password can't be empty.''), alice_db)"
  using updateUser_empty_rejected [of "''Bob''" "[]" 1 alice_db]
    updateUser_empty_rejected [of "[]" "''newsecret''" 1 alice_db]
  by simp

text \<open>
  Claim C7, as the code has it. On an open connection \<open>checkUser\<close> matches on equality
  of both email and password. When some row has both, it resolves with OK and the id,
  name and email of such a row. When no row has both, it resolves with the error
  envelope whose message is "Wrong email or password.", whichever of the two was wrong.
  The database is unchanged in both cases.
\<close>

theorem checkUser_matches_both:
  assumes "conn_open s"
  shows "((\<exists>u\<in>set (users s). u_email u = email \<and> u_password u = password) \<longrightarrow>
            (\<exists>row\<in>set (users s). u_email row = email \<and> u_password row = password \<and>
               checkUser email password s =
                 (Inr (OK (UserData (u_id row) (u_name row) (u_email row))), s))) \<and>
         (\<not> (\<exists>u\<in>set (users s). u_email u = email \<and> u_password u = password) \<longrightarrow>
            checkUser email password s = (Inr (Err ''Wrong email or password.''), s))"
proof (intro conjI impI)
  assume "\<exists>u\<in>set (users s). u_email u = email \<and> u_password u = password"
  from find_exists [of "users s" "\<lambda>u. u_email u = email \<and> u_password u = password", OF this]
  obtain row where
    row: "find (\<lambda>u. u_email u = email \<and> u_password u = password) (users s) = Some row"
    by blast
  from find_Some_set [OF row]
  have hit: "row \<in> set (users s)" "u_email row = email" "u_password row = password"
    by auto
  from row assms hit(2)
  have "checkUser email password s =
          (Inr (OK (UserData (u_id row) (u_name row) (u_email row))), s)"
    by (simp add: checkUser_def dbGet_def select_user_by_login_def)
  with hit
  show "\<exists>row\<in>set (users s). u_email row = email \<and> u_password row = password \<and>
          checkUser email password s =
            (Inr (OK (UserData (u_id row) (u_name row) (u_email row))), s)"
    by blast
next
  assume "\<not> (\<exists>u\<in>set (users s). u_email u = email \<and> u_password u = password)"
  then have "find (\<lambda>u. u_email u = email \<and> u_password u = password) (users s) = None"
    by (auto simp: find_None_iff)
  with assms show "checkUser email password s = (Inr (Err ''Wrong email or password.''), s)"
    by (simp add: checkUser_def dbGet_def select_user_by_login_def)
qed

theorem checkUser_matches_both_witness:
  "conn_open alice_db \<and>
   checkUser ''alice@example.com'' ''secret'' alice_db =
     (Inr (OK (UserData 1 ''Alice'' ''alice@example.com'')), alice_db) \<and>
   checkUser ''alice@example.com'' ''wrong'' alice_db =
     (Inr (Err ''Wrong email or password.''), alice_db) \<and>
   checkUser ''bob@example.com'' ''secret'' alice_db =
     (Inr (Err ''Wrong email or password.''), alice_db)"
  using checkUser_matches_both [of alice_db "''alice@example.com''" "''secret''"]
    checkUser_matches_both [of alice_db "''alice@example.com''" "''wrong''"]
    checkUser_matches_both [of alice_db "''bob@example.com''" "''secret''"]
  by (simp add: alice_db_eq)

text \<open>
  Claim C7 as stated fails on the text of the message: with a wrong password the
  envelope of \<open>checkUser\<close> is not the one with the message "wrong email or password".
\<close>

theorem checkUser_message_differs:
  "fst (checkUser ''alice@example.com'' ''wrong'' alice_db) =
     Inr (Err ''Wrong email or password.'') \<and>
   fst (checkUser ''alice@example.com'' ''wrong'' alice_db) \<noteq>
     Inr (Err ''wrong email or password'')"
  by (simp add: alice_db_eq checkUser_def dbGet_def select_user_by_login_def)

text \<open>
  Claim C10. Whenever the email check inside \<open>createUser\<close> resolves with an error
  envelope, \<open>createUser\<close> resolves with that same envelope and the database is
  unchanged, so nothing is inserted. The check fails on a closed connection, with the
  message of the exception, and on an email that is taken, with the message of the
  conflict: both are error envelopes, and only the message tells them apart.
\<close>

theorem createUser_precheck_fails:
  "(fst (checkEmailTaken email s) = Inr (Err m) \<longrightarrow>
      createUser name email password s = (Inr (Err m), s)) \<and>
   (\<not> conn_open s \<longrightarrow>
      fst (checkEmailTaken email s) = Inr (Err ''The database connection is not open'')) \<and>
   (conn_open s \<and> email \<in> set (map u_email (users s)) \<longrightarrow>
      fst (checkEmailTaken email s) = Inr (Err ''The email is already used.''))"
proof (intro conjI impI)
  assume "fst (checkEmailTaken email s) = Inr (Err m)"
  moreover from checkEmailTaken_resolves [of email s]
  obtain env where env: "checkEmailTaken email s = (Inr env, s)"
    by blast
  ultimately have "checkEmailTaken email s = (Inr (Err m), s)"
    by simp
  then show "createUser name email password s = (Inr (Err m), s)"
    by (simp add: createUser_def)
next
  assume "\<not> conn_open s"
  then show "fst (checkEmailTaken email s) = Inr (Err ''The database connection is not open'')"
    by (simp add: checkEmailTaken_cases)
next
  assume "conn_open s \<and> email \<in> set (map u_email (users s))"
  then show "fst (checkEmailTaken email s) = Inr (Err ''The email is already used.'')"
    by (simp add: checkEmailTaken_cases)
qed

theorem createUser_precheck_fails_witness:
  "createUser ''Nina'' ''new@example.com'' ''pw'' (dbClose alice_db) =
     (Inr (Err ''The database connection is not open''), dbClose alice_db) \<and>
   createUser ''Mallory'' ''alice@example.com'' ''other'' alice_db =
     (Inr (Err ''The email is already used.''), alice_db)"
  using createUser_precheck_fails [of "''new@example.com''" "dbClose alice_db"
      "''The database connection is not open''" "''Nina''" "''pw''"]
    createUser_precheck_fails [of "''alice@example.com''" alice_db
      "''The email is already used.''" "''Mallory''" "''other''"]
  by (simp add: alice_db_eq dbClose_def)

end
